theory Spec2Isabelle
  imports Main
begin

section \<open>The host: platform constants and answers of the framework\<close>

text \<open>
  The script \<^verbatim>\<open>baklava/src/electron.ts\<close> is event wiring around the desktop framework.
  Everything the framework or a sibling module supplies is an input of the model:
  the constants of \<^verbatim>\<open>./constants\<close> (\<^verbatim>\<open>ALLOWED_HOSTS\<close>, \<^verbatim>\<open>isLinux\<close>, \<^verbatim>\<open>isMac\<close>, \<^verbatim>\<open>isWin\<close>),
  \<^verbatim>\<open>app.isPackaged\<close>, the result of \<^verbatim>\<open>app.requestSingleInstanceLock()\<close>, the environment
  variable \<^verbatim>\<open>hotReload\<close> and the URL parser behind \<^verbatim>\<open>new URL(url)\<close>, which yields an
  object with a \<^verbatim>\<open>hostname\<close> and a \<^verbatim>\<open>pathname\<close> or throws a \<^verbatim>\<open>TypeError\<close> (here \<open>None\<close>).
\<close>

record url_obj =
  hostname :: string
  pathname :: string

record platform =
  isLinux :: bool
  isMac :: bool
  isWin :: bool
  prod :: bool
  instanceLock :: bool
  hotReload :: "string option"
  ALLOWED_HOSTS :: "string list"
  URL_new :: "string \<Rightarrow> url_obj option"

text \<open>
  \<^verbatim>\<open>if (process.env.hotReload)\<close>: an environment variable is a string or undefined, and
  the empty string is falsy as undefined is.
\<close>

definition truthy :: "string option \<Rightarrow> bool" where
  "truthy v = (case v of None \<Rightarrow> False | Some s \<Rightarrow> s \<noteq> [])"

text \<open>
  What the framework answers when a handler asks: the promise of
  \<^verbatim>\<open>systemPreferences.askForMediaAccess\<close> (resolved with a boolean, or rejected), the
  properties of the main window, and whether a sibling module has stored an overlay
  window in \<^verbatim>\<open>bWindows\<close>.
\<close>

datatype promise = Resolved bool | Rejected

record host =
  askForMediaAccess :: promise
  isFullScreenable :: bool
  isFullScreen :: bool
  maximizable :: bool
  isMaximized :: bool
  minimizable :: bool
  isMinimized :: bool
  overlay :: bool

section \<open>Window options\<close>

text \<open>The option objects given to \<^verbatim>\<open>new BrowserWindow\<close>; an absent key is \<open>None\<close>.\<close>

record webPreferences =
  nodeIntegration :: bool
  contextIsolation :: bool

record window_options =
  width :: nat
  height :: nat
  minWidth :: "nat option"
  minHeight :: "nat option"
  autoHideMenuBar :: "bool option"
  transparent :: "bool option"
  frame :: "bool option"
  resizable :: "bool option"
  show_option :: "bool option"
  webPreferences :: webPreferences

definition mainWindow_options :: "platform \<Rightarrow> window_options" where
  "mainWindow_options p =
     \<lparr> width = 1500, height = 800, minWidth = Some 400, minHeight = Some 600,
       autoHideMenuBar = Some True, transparent = None, frame = Some (isLinux p),
       resizable = None, show_option = Some False,
       webPreferences = \<lparr> nodeIntegration = True, contextIsolation = False \<rparr> \<rparr>"

definition splash_options :: window_options where
  "splash_options =
     \<lparr> width = 290, height = 400, minWidth = None, minHeight = None,
       autoHideMenuBar = None, transparent = Some True, frame = Some False,
       resizable = Some True, show_option = None,
       webPreferences = \<lparr> nodeIntegration = True, contextIsolation = False \<rparr> \<rparr>"

section \<open>Effects\<close>

text \<open>
  The calls the script makes on the framework and on its sibling modules, in the order
  it makes them. A handler is modelled by the list of calls it makes. The one entry that
  is not a call is \<open>Assign_shouldShowWindow\<close>, the assignment
  \<^verbatim>\<open>shouldShowWindow = true\<close> of the \<^verbatim>\<open>ready-to-show\<close> listener.
\<close>

datatype win = Main_window | Splash_window

datatype error = TypeError

datatype action =
    SetAppUserModelId string
  | App_relaunch
  | ExitApp
  | Localize
  | New_BrowserWindow win window_options
  | SetApplicationMenu
  | New_Tray
  | OpenDevTools
  | Load win string
  | Send win string
  | StartRPC
  | RegisterKeybinds
  | HandleVoiceTray
  | StartNotificationHandler
  | PreventDefault
  | OpenExternal string
  | AskForMediaAccess string
  | ReturnValue bool
  | Sender_send string bool bool bool
  | Maximize
  | Unmaximize
  | Minimize
  | SetFullScreen bool
  | Close
  | Restore
  | Focus
  | Show win
  | Destroy win
  | Destroy_overlay
  | UnregisterAll
  | ClearTimeout
  | SetInterval nat
  | ClearInterval
  | SetTimeout nat
  | Assign_shouldShowWindow
  | Uncaught error

section \<open>Handling external links\<close>

text \<open>
  \<^verbatim>\<open>ALLOWED_HOSTS[i]\<close> is undefined beyond the end of the array, and a hostname, a
  string, is never \<^verbatim>\<open>==\<close> to undefined.
\<close>

definition host_at :: "string list \<Rightarrow> nat \<Rightarrow> string option" where
  "host_at hosts i = (if i < length hosts then Some (hosts ! i) else None)"

definition handleLinks :: "platform \<Rightarrow> string \<Rightarrow> error + action list" where
  "handleLinks p url =
     (case URL_new p url of
        None \<Rightarrow> Inl TypeError
      | Some urlObj \<Rightarrow>
          (let urlHost = hostname urlObj in
           if urlHost \<notin> set (ALLOWED_HOSTS p) then Inr [PreventDefault, OpenExternal url]
           else if (Some urlHost = host_at (ALLOWED_HOSTS p) 3 \<and>
                    pathname urlObj \<noteq> ''/login'' \<and>
                    pathname urlObj \<noteq> ''/session'' \<and>
                    pathname urlObj \<noteq> ''/sessions/two-factor'' \<and>
                    pathname urlObj \<noteq> ''/sessions/two-factor/webauthn'') \<or>
                   (Some urlHost = host_at (ALLOWED_HOSTS p) 8 \<and>
                    pathname urlObj \<noteq> ''/account/login_verification'')
                then Inr [PreventDefault, OpenExternal url]
           else Inr []))"

text \<open>
  \<^verbatim>\<open>mainWindow.webContents.on("new-window", handleLinks)\<close> and the same for
  \<^verbatim>\<open>"will-navigate"\<close>: the listeners this script puts on the main window's contents.
\<close>

definition webContents_emit :: "platform \<Rightarrow> string \<Rightarrow> string \<Rightarrow> error + action list" where
  "webContents_emit p name url =
     (if name = ''new-window'' then handleLinks p url
      else if name = ''will-navigate'' then handleLinks p url
      else Inr [])"

section \<open>Messages on the inter-process channel\<close>

text \<open>
  \<^verbatim>\<open>ipcMain.on("request-mic", ...)\<close>: one request for the microphone; its boolean
  becomes \<^verbatim>\<open>event.returnValue\<close>. When the promise is rejected the async handler ends at
  the \<^verbatim>\<open>await\<close>, and nothing is assigned.
\<close>

definition on_request_mic :: "host \<Rightarrow> action list" where
  "on_request_mic h =
     AskForMediaAccess ''microphone'' #
       (case askForMediaAccess h of
          Resolved isAllowed \<Rightarrow> [ReturnValue isAllowed]
        | Rejected \<Rightarrow> [])"

definition on_app_maximize :: "platform \<Rightarrow> host \<Rightarrow> action list" where
  "on_app_maximize p h =
     (if isMac p then
        (if isFullScreenable h then [SetFullScreen (\<not> isFullScreen h)] else [])
      else
        (if maximizable h then
           (if isMaximized h then [Unmaximize] else [Maximize])
         else []))"

text \<open>The listeners that \<^verbatim>\<open>createMainWindow\<close> puts on \<^verbatim>\<open>ipcMain\<close>, by channel name.\<close>

definition ipcMain_emit :: "platform \<Rightarrow> host \<Rightarrow> string \<Rightarrow> action list" where
  "ipcMain_emit p h channel =
     (if channel = ''request-mic'' then on_request_mic h
      else if channel = ''@dogehouse/loaded'' then (if isMac p then [Maximize] else [])
      else if channel = ''@app/quit'' then [Close]
      else if channel = ''@app/maximize'' then on_app_maximize p h
      else if channel = ''@app/minimize'' then (if minimizable h then [Minimize] else [])
      else if channel = ''@app/hostPlatform'' then
        [Sender_send ''@app/hostPlatform'' (isLinux p) (isMac p) (isWin p)]
      else [])"

section \<open>Module state and the event loop\<close>

text \<open>
  The module's variables, a clock in milliseconds, the timers that are armed (each with
  the time from which its callback may run), the listeners that are armed once, the
  continuations waiting for \<^verbatim>\<open>localize()\<close>, and the calls made so far, each with the time
  of the call. \<open>mainWindow\<close> and \<open>splash\<close> are declared without a value: undefined.
\<close>

datatype js_ref = Undefined | Null | Object

datatype continuation = Then_splash | Then_main

record state =
  now :: nat
  mainWindow :: js_ref
  splash :: js_ref
  shouldShowWindow :: bool
  windowShowInterval :: "nat option"
  skipUpdateTimeout :: "nat option"
  showTimeout :: "nat option"
  readyToShow_once :: bool
  ready_emitted :: bool
  localize_then :: "continuation list"
  trace :: "(nat \<times> action) list"

definition init :: state where
  "init =
     \<lparr> now = 0, mainWindow = Undefined, splash = Undefined, shouldShowWindow = False,
       windowShowInterval = None, skipUpdateTimeout = None, showTimeout = None,
       readyToShow_once = False, ready_emitted = False, localize_then = [], trace = [] \<rparr>"

definition emit :: "action list \<Rightarrow> state \<Rightarrow> state" where
  "emit as s = s\<lparr>trace := trace s @ map (Pair (now s)) as\<rparr>"

definition mainUrlBase :: string where
  "mainUrlBase = ''https://dogehouse.tv/''"

definition localUrlBase :: string where
  "localUrlBase = ''http://localhost:3000''"

text \<open>
  \<^verbatim>\<open>createMainWindow\<close>: the window is created hidden (\<^verbatim>\<open>show: false\<close>); the listener for
  \<^verbatim>\<open>ready-to-show\<close> is armed once. The listeners on \<^verbatim>\<open>ipcMain\<close> and on the window's
  contents are those of \<open>ipcMain_emit\<close> and \<open>webContents_emit\<close>; they exist from here on,
  which the event loop reads off \<open>mainWindow\<close>.
\<close>

definition createMainWindow :: "platform \<Rightarrow> state \<Rightarrow> state" where
  "createMainWindow p s =
     emit ([New_BrowserWindow Main_window (mainWindow_options p), SetApplicationMenu, New_Tray]
           @ (if \<not> prod p then [OpenDevTools] else [])
           @ [Load Main_window (if prod p then mainUrlBase else localUrlBase)]
           @ (if isMac p then [Send Main_window ''@alerts/permissions''] else [])
           @ [StartRPC, RegisterKeybinds, HandleVoiceTray, StartNotificationHandler])
       (s\<lparr>mainWindow := Object, readyToShow_once := True\<rparr>)"

definition createSplashWindow :: "state \<Rightarrow> state" where
  "createSplashWindow s =
     emit [New_BrowserWindow Splash_window splash_options,
           Load Splash_window ''../resources/splash/splash-screen.html'']
       (s\<lparr>splash := Object\<rparr>)"

text \<open>
  \<^verbatim>\<open>skipUpdateCheck\<close>. Nothing in the script assigns \<^verbatim>\<open>skipUpdateTimeout\<close>; the test is
  kept. \<^verbatim>\<open>setInterval(..., 1000)\<close> arms the polling timer.
\<close>

definition skipUpdateCheck :: "platform \<Rightarrow> state \<Rightarrow> state" where
  "skipUpdateCheck p s =
     (let s1 = createMainWindow p s;
          s2 = emit [Send Splash_window ''notfound''] s1;
          s3 = (if isLinux p \<or> \<not> prod p then emit [Send Splash_window ''skipCheck''] s2 else s2);
          s4 = (case skipUpdateTimeout s3 of
                  Some t \<Rightarrow> emit [ClearTimeout] (s3\<lparr>skipUpdateTimeout := None\<rparr>)
                | None \<Rightarrow> s3);
          s5 = emit [SetInterval 1000] s4
      in s5\<lparr>windowShowInterval := Some (now s5 + 1000)\<rparr>)"

text \<open>The callback of the interval, and the callback of the timeout it sets.\<close>

definition interval_callback :: "state \<Rightarrow> state" where
  "interval_callback s =
     (if shouldShowWindow s then
        (emit [Send Splash_window ''launch'', ClearInterval, SetTimeout 800] s)
          \<lparr>windowShowInterval := None, showTimeout := Some (now s + 800)\<rparr>
      else s)"

definition timeout_callback :: "state \<Rightarrow> state" where
  "timeout_callback s = emit [Destroy Splash_window, Show Main_window] s"

text \<open>
  The top level of the module, run when the process starts. \<^verbatim>\<open>exitApp\<close> belongs to
  \<^verbatim>\<open>./utils/keybinds\<close>: the model records the call and lets later events arrive, so
  that what is proved of every run holds however soon the process is gone.
\<close>

definition toplevel :: "platform \<Rightarrow> state" where
  "toplevel p =
     emit ((if isWin p then [SetAppUserModelId ''DogeHouse Reloaded''] else [])
           @ (if \<not> instanceLock p then
                (if truthy (hotReload p) then [App_relaunch] else []) @ [ExitApp]
              else []))
       init"

definition on_second_instance :: "platform \<Rightarrow> host \<Rightarrow> state \<Rightarrow> action list" where
  "on_second_instance p h s =
     (if mainWindow s = Object then
        (if truthy (hotReload p) then [Close]
         else (if isMinimized h then [Restore] else []) @ [Focus])
      else [])"

definition run_continuation :: "platform \<Rightarrow> continuation \<Rightarrow> state \<Rightarrow> state" where
  "run_continuation p k s =
     (case k of
        Then_splash \<Rightarrow> skipUpdateCheck p (createSplashWindow s)
      | Then_main \<Rightarrow> createMainWindow p s)"

text \<open>
  What the framework can deliver to the process. Time passes; \<^verbatim>\<open>ready\<close> comes at most
  once; a timer's callback runs only once its delay has passed (\<open>None\<close>: the event
  cannot happen in that state); a listener that is not registered ignores its event.
  The listeners for \<^verbatim>\<open>ready\<close> and \<^verbatim>\<open>second-instance\<close> are registered only with the lock.
\<close>

datatype event =
    Elapse nat
  | App_ready
  | Localize_resolved
  | Localize_rejected
  | Second_instance host
  | Window_all_closed
  | Activate
  | Ready_to_show
  | Interval_fire
  | Timeout_fire
  | Ipc string host
  | Web_contents string string
  | Closed host
  | Splash_did_finish_load

fun step :: "platform \<Rightarrow> state \<Rightarrow> event \<Rightarrow> state option" where
  "step p s (Elapse d) = Some (s\<lparr>now := now s + d\<rparr>)"
| "step p s App_ready =
     (if ready_emitted s then None
      else Some (if instanceLock p
                 then (emit [Localize] s)
                        \<lparr>ready_emitted := True, localize_then := localize_then s @ [Then_splash]\<rparr>
                 else s\<lparr>ready_emitted := True\<rparr>))"
| "step p s Localize_resolved =
     (case localize_then s of
        [] \<Rightarrow> None
      | k # ks \<Rightarrow> Some (run_continuation p k (s\<lparr>localize_then := ks\<rparr>)))"
| "step p s Localize_rejected =
     (case localize_then s of
        [] \<Rightarrow> None
      | k # ks \<Rightarrow> Some (s\<lparr>localize_then := ks\<rparr>))"
| "step p s (Second_instance h) =
     Some (if instanceLock p then emit (on_second_instance p h s) s else s)"
| "step p s Window_all_closed = Some (emit [ExitApp] s)"
| "step p s Activate =
     Some (if mainWindow s = Null
           then (emit [Localize] s)\<lparr>localize_then := localize_then s @ [Then_main]\<rparr>
           else s)"
| "step p s Ready_to_show =
     Some (if readyToShow_once s
           then emit [Assign_shouldShowWindow] (s\<lparr>shouldShowWindow := True, readyToShow_once := False\<rparr>)
           else s)"
| "step p s Interval_fire =
     (case windowShowInterval s of
        None \<Rightarrow> None
      | Some due \<Rightarrow>
          if now s < due then None
          else Some (interval_callback (s\<lparr>windowShowInterval := Some (now s + 1000)\<rparr>)))"
| "step p s Timeout_fire =
     (case showTimeout s of
        None \<Rightarrow> None
      | Some due \<Rightarrow>
          if now s < due then None
          else Some (timeout_callback (s\<lparr>showTimeout := None\<rparr>)))"
| "step p s (Ipc channel h) =
     Some (if mainWindow s = Object then emit (ipcMain_emit p h channel) s else s)"
| "step p s (Web_contents name url) =
     Some (if mainWindow s = Object
           then (case webContents_emit p name url of
                   Inl e \<Rightarrow> emit [Uncaught e] s
                 | Inr as \<Rightarrow> emit as s)
           else s)"
| "step p s (Closed h) =
     Some (if mainWindow s = Object
           then emit ([UnregisterAll] @ (if overlay h then [Destroy_overlay] else [])
                      @ [Destroy Main_window]) s
           else s)"
| "step p s Splash_did_finish_load =
     Some (if splash s = Object then emit [Send Splash_window ''@locale/text''] s else s)"

fun run :: "platform \<Rightarrow> state \<Rightarrow> event list \<Rightarrow> state option" where
  "run p s [] = Some s"
| "run p s (e # es) = (case step p s e of None \<Rightarrow> None | Some s' \<Rightarrow> run p s' es)"

text \<open>Counting: messages sent to the splash window, and main windows created.\<close>

definition sent :: "state \<Rightarrow> string \<Rightarrow> nat" where
  "sent s channel = count_list (map snd (trace s)) (Send Splash_window channel)"

definition is_new_main :: "nat \<times> action \<Rightarrow> bool" where
  "is_new_main e = (case snd e of New_BrowserWindow Main_window opts \<Rightarrow> True | _ \<Rightarrow> False)"

definition main_windows_created :: "state \<Rightarrow> nat" where
  "main_windows_created s = length (filter is_new_main (trace s))"

section \<open>Auxiliary notions for the proofs\<close>

text \<open>The calls of a handler that returned; a handler that threw made none.\<close>

definition performed :: "error + action list \<Rightarrow> action list" where
  "performed r = (case r of Inl e \<Rightarrow> [] | Inr as \<Rightarrow> as)"

text \<open>
  The invariant of the handoff from the splash window to the main window, over the calls
  made so far: a polling timer is armed only 1000 ms after a \<^verbatim>\<open>setInterval\<close>, the flag is
  set only by the \<^verbatim>\<open>ready-to-show\<close> listener, the timeout is armed only 800 ms after a poll
  that saw the flag, and every \<^verbatim>\<open>show\<close> of the main window came from that timeout.
\<close>

definition armed_ok :: "(nat \<times> action) list \<Rightarrow> nat \<Rightarrow> bool" where
  "armed_ok tr due \<longleftrightarrow>
     (\<exists>t0. t0 + 1000 \<le> due \<and> (t0, SetInterval 1000) \<in> set tr)"

definition polled_at :: "(nat \<times> action) list \<Rightarrow> nat \<Rightarrow> bool" where
  "polled_at tr t \<longleftrightarrow>
     (t, Send Splash_window ''launch'') \<in> set tr \<and>
     (\<exists>t_ready\<le>t. (t_ready, Assign_shouldShowWindow) \<in> set tr) \<and> armed_ok tr t"

definition timeout_ok :: "(nat \<times> action) list \<Rightarrow> nat \<Rightarrow> bool" where
  "timeout_ok tr due \<longleftrightarrow> (\<exists>t_obs. due = t_obs + 800 \<and> polled_at tr t_obs)"

definition shown_ok :: "(nat \<times> action) list \<Rightarrow> nat \<Rightarrow> bool" where
  "shown_ok tr t \<longleftrightarrow>
     (t, Destroy Splash_window) \<in> set tr \<and> (\<exists>t_obs. t_obs + 800 \<le> t \<and> polled_at tr t_obs)"

definition flagged :: "(nat \<times> action) list \<Rightarrow> bool" where
  "flagged tr \<longleftrightarrow> (\<exists>t. (t, Assign_shouldShowWindow) \<in> set tr)"

definition handoff_inv :: "state \<Rightarrow> bool" where
  "handoff_inv s \<longleftrightarrow>
     (\<forall>e\<in>set (trace s). fst e \<le> now s) \<and>
     (shouldShowWindow s \<longrightarrow> flagged (trace s)) \<and>
     (\<forall>due. windowShowInterval s = Some due \<longrightarrow> armed_ok (trace s) due) \<and>
     (\<forall>due. showTimeout s = Some due \<longrightarrow> timeout_ok (trace s) due) \<and>
     (\<forall>t. (t, Show Main_window) \<in> set (trace s) \<longrightarrow> shown_ok (trace s) t)"

text \<open>A process in which no window exists and none is on its way.\<close>

definition no_window :: "state \<Rightarrow> bool" where
  "no_window s \<longleftrightarrow>
     mainWindow s = Undefined \<and> splash s = Undefined \<and> localize_then s = [] \<and>
     (\<forall>t w opts. (t, New_BrowserWindow w opts) \<notin> set (trace s))"



section \<open>Facts about the event loop\<close>

lemma emit_fields [simp]:
  "trace (emit as s) = trace s @ map (Pair (now s)) as"
  "now (emit as s) = now s"
  "mainWindow (emit as s) = mainWindow s"
  "splash (emit as s) = splash s"
  "shouldShowWindow (emit as s) = shouldShowWindow s"
  "windowShowInterval (emit as s) = windowShowInterval s"
  "skipUpdateTimeout (emit as s) = skipUpdateTimeout s"
  "showTimeout (emit as s) = showTimeout s"
  "readyToShow_once (emit as s) = readyToShow_once s"
  "ready_emitted (emit as s) = ready_emitted s"
  "localize_then (emit as s) = localize_then s"
  by (simp_all add: emit_def)

lemma emit_Nil [simp]: "emit [] s = s"
  by (simp add: emit_def)

subsection \<open>The handoff invariant\<close>








lemma handoff_inv_other_fields [simp]:
  "handoff_inv (s\<lparr>mainWindow := m\<rparr>) = handoff_inv s"
  "handoff_inv (s\<lparr>splash := m\<rparr>) = handoff_inv s"
  "handoff_inv (s\<lparr>skipUpdateTimeout := x\<rparr>) = handoff_inv s"
  "handoff_inv (s\<lparr>readyToShow_once := b\<rparr>) = handoff_inv s"
  "handoff_inv (s\<lparr>ready_emitted := b\<rparr>) = handoff_inv s"
  "handoff_inv (s\<lparr>localize_then := ks\<rparr>) = handoff_inv s"
  by (simp_all add: handoff_inv_def)
















subsection \<open>The steps of the handoff\<close>
















subsection \<open>A process without the lock\<close>

lemma no_window_init: "\<not> instanceLock p \<Longrightarrow> no_window (toplevel p)"
  by (auto simp: no_window_def toplevel_def init_def)

lemma no_window_step:
  assumes "\<not> instanceLock p" and "no_window s" and "step p s e = Some s'"
  shows "no_window s'"
  using assms
  by (cases e)
     (auto simp: no_window_def interval_callback_def timeout_callback_def
           split: option.splits if_splits list.splits)

lemma no_window_run:
  "\<not> instanceLock p \<Longrightarrow> no_window s \<Longrightarrow> run p s evs = Some s' \<Longrightarrow> no_window s'"
proof (induction evs arbitrary: s)
  case Nil
  then show ?case by simp
next
  case (Cons e es)
  then show ?case
    by (auto split: option.splits dest: no_window_step)
qed

lemma no_window_created: "no_window s \<Longrightarrow> main_windows_created s = 0"
  by (auto simp: no_window_def main_windows_created_def is_new_main_def filter_empty_conv
           split: action.splits win.splits)

lemma main_windows_created_emit:
  "set as \<subseteq> {Close, Restore, Focus} \<Longrightarrow> main_windows_created (emit as s) = main_windows_created s"
  by (induction as rule: rev_induct)
     (auto simp: main_windows_created_def is_new_main_def emit_def)

subsection \<open>Messages to the splash window\<close>

lemma sent_emit: "sent (emit as s) c = sent s c + count_list as (Send Splash_window c)"
  by (simp add: sent_def comp_def)

lemma sent_createMainWindow:
  "sent (createMainWindow p s) c = sent s c"
  by (simp add: createMainWindow_def sent_emit) (simp add: sent_def)

lemma sent_skipUpdateCheck:
  "sent (skipUpdateCheck p s) c =
     sent s c + (if c = ''notfound'' then 1 else 0)
              + (if c = ''skipCheck'' \<and> (isLinux p \<or> \<not> prod p) then 1 else 0)"
proof -
  have upd: "sent (x\<lparr>windowShowInterval := v\<rparr>) c' = sent x c'"
    "sent (x\<lparr>skipUpdateTimeout := w\<rparr>) c' = sent x c'" for x v w c'
    by (simp_all add: sent_def)
  show ?thesis
    by (simp add: skipUpdateCheck_def Let_def upd sent_emit sent_createMainWindow
        split: option.split)
qed

section \<open>Navigation policy\<close>

text \<open>
  C1. A URL whose hostname is not in \<^verbatim>\<open>ALLOWED_HOSTS\<close>: on \<^verbatim>\<open>new-window\<close> and on
  \<^verbatim>\<open>will-navigate\<close> alike the handler prevents the navigation in the application and
  opens that URL, as it was given, in the default browser.
\<close>

theorem handleLinks_foreign_host:
  assumes "URL_new p url = Some u"
    and "hostname u \<notin> set (ALLOWED_HOSTS p)"
    and "name = ''new-window'' \<or> name = ''will-navigate''"
  shows "webContents_emit p name url = Inr [PreventDefault, OpenExternal url]"
  using assms by (auto simp: webContents_emit_def handleLinks_def)

text \<open>A foreign host on \<^verbatim>\<open>will-navigate\<close>.\<close>

theorem handleLinks_foreign_host_witness:
  "webContents_emit
     \<lparr> isLinux = True, isMac = False, isWin = False, prod = True, instanceLock = True,
       hotReload = None, ALLOWED_HOSTS = [''dogehouse.tv'', ''localhost''],
       URL_new = [''https://example.org/a'' \<mapsto> \<lparr>hostname = ''example.org'', pathname = ''/a''\<rparr>] \<rparr>
     ''will-navigate'' ''https://example.org/a''
   = Inr [PreventDefault, OpenExternal ''https://example.org/a'']"
  by (rule handleLinks_foreign_host [where u = "\<lparr>hostname = ''example.org'', pathname = ''/a''\<rparr>"])
     simp_all

text \<open>
  C2. The two hosts with path exclusions are \<^verbatim>\<open>ALLOWED_HOSTS[3]\<close> and \<^verbatim>\<open>ALLOWED_HOSTS[8]\<close>:
  the list has both entries and they are two hosts. On such a host a URL whose path is
  exactly one of the listed paths stays in the application (the handler makes no call at
  all), and every other path is prevented and opened externally.
\<close>

theorem excluded_paths_stay_in_app:
  assumes "URL_new p url = Some u"
    and "8 < length (ALLOWED_HOSTS p)"
    and "ALLOWED_HOSTS p ! 3 \<noteq> ALLOWED_HOSTS p ! 8"
  shows "(hostname u = ALLOWED_HOSTS p ! 3 \<longrightarrow>
            handleLinks p url =
              Inr (if pathname u \<in> {''/login'', ''/session'', ''/sessions/two-factor'',
                                    ''/sessions/two-factor/webauthn''}
                   then [] else [PreventDefault, OpenExternal url]))
       \<and> (hostname u = ALLOWED_HOSTS p ! 8 \<longrightarrow>
            handleLinks p url =
              Inr (if pathname u = ''/account/login_verification''
                   then [] else [PreventDefault, OpenExternal url]))"
proof -
  have m3: "ALLOWED_HOSTS p ! 3 \<in> set (ALLOWED_HOSTS p)"
    and m8: "ALLOWED_HOSTS p ! 8 \<in> set (ALLOWED_HOSTS p)"
    using assms(2) by simp_all
  have a3: "host_at (ALLOWED_HOSTS p) 3 = Some (ALLOWED_HOSTS p ! 3)"
    and a8: "host_at (ALLOWED_HOSTS p) 8 = Some (ALLOWED_HOSTS p ! 8)"
    using assms(2) by (simp_all add: host_at_def)
  show ?thesis
    using assms(1,3) m3 m8 by (auto simp: handleLinks_def a3 a8)
qed

text \<open>The login page of the host at index 3 stays in the application.\<close>

theorem excluded_paths_stay_in_app_witness:
  "handleLinks
     \<lparr> isLinux = True, isMac = False, isWin = False, prod = True, instanceLock = True,
       hotReload = None,
       ALLOWED_HOSTS = [''h0'', ''h1'', ''h2'', ''github.com'', ''h4'', ''h5'', ''h6'', ''h7'',
                        ''twitter.com''],
       URL_new = [''https://github.com/login'' \<mapsto>
                    \<lparr>hostname = ''github.com'', pathname = ''/login''\<rparr>] \<rparr>
     ''https://github.com/login''
   = Inr []"
proof -
  let ?p = "\<lparr> isLinux = True, isMac = False, isWin = False, prod = True, instanceLock = True,
       hotReload = None,
       ALLOWED_HOSTS = [''h0'', ''h1'', ''h2'', ''github.com'', ''h4'', ''h5'', ''h6'', ''h7'',
                        ''twitter.com''],
       URL_new = [''https://github.com/login'' \<mapsto>
                    \<lparr>hostname = ''github.com'', pathname = ''/login''\<rparr>] \<rparr>"
  have a: "URL_new ?p ''https://github.com/login'' =
             Some \<lparr>hostname = ''github.com'', pathname = ''/login''\<rparr>"
    by simp
  have b: "8 < length (ALLOWED_HOSTS ?p)" by simp
  have c: "ALLOWED_HOSTS ?p ! 3 \<noteq> ALLOWED_HOSTS ?p ! 8" by simp
  from excluded_paths_stay_in_app [OF a b c] show ?thesis by simp
qed

text \<open>
  C3, as the code has it: on those two hosts the external open happens exactly for the
  paths that are not on the host's list; a listed path does not trigger it.
\<close>

theorem external_open_iff_not_excluded:
  assumes "URL_new p url = Some u"
    and "8 < length (ALLOWED_HOSTS p)"
    and "ALLOWED_HOSTS p ! 3 \<noteq> ALLOWED_HOSTS p ! 8"
  shows "(hostname u = ALLOWED_HOSTS p ! 3 \<longrightarrow>
            (OpenExternal url \<in> set (performed (handleLinks p url)) \<longleftrightarrow>
             pathname u \<notin> {''/login'', ''/session'', ''/sessions/two-factor'',
                             ''/sessions/two-factor/webauthn''}))
       \<and> (hostname u = ALLOWED_HOSTS p ! 8 \<longrightarrow>
            (OpenExternal url \<in> set (performed (handleLinks p url)) \<longleftrightarrow>
             pathname u \<noteq> ''/account/login_verification''))"
proof -
  have m3: "ALLOWED_HOSTS p ! 3 \<in> set (ALLOWED_HOSTS p)"
    and m8: "ALLOWED_HOSTS p ! 8 \<in> set (ALLOWED_HOSTS p)"
    using assms(2) by simp_all
  have a3: "host_at (ALLOWED_HOSTS p) 3 = Some (ALLOWED_HOSTS p ! 3)"
    and a8: "host_at (ALLOWED_HOSTS p) 8 = Some (ALLOWED_HOSTS p ! 8)"
    using assms(2) by (simp_all add: host_at_def)
  show ?thesis
    using assms(1,3) m3 m8 by (auto simp: handleLinks_def performed_def a3 a8)
qed

text \<open>A path that is not listed, on the host at index 8, is opened externally.\<close>

theorem external_open_iff_not_excluded_witness:
  "OpenExternal ''https://twitter.com/home'' \<in>
     set (performed (handleLinks
       \<lparr> isLinux = True, isMac = False, isWin = False, prod = True, instanceLock = True,
         hotReload = None,
         ALLOWED_HOSTS = [''h0'', ''h1'', ''h2'', ''github.com'', ''h4'', ''h5'', ''h6'', ''h7'',
                          ''twitter.com''],
         URL_new = [''https://twitter.com/home'' \<mapsto>
                      \<lparr>hostname = ''twitter.com'', pathname = ''/home''\<rparr>] \<rparr>
       ''https://twitter.com/home''))"
proof -
  let ?p = "\<lparr> isLinux = True, isMac = False, isWin = False, prod = True, instanceLock = True,
         hotReload = None,
         ALLOWED_HOSTS = [''h0'', ''h1'', ''h2'', ''github.com'', ''h4'', ''h5'', ''h6'', ''h7'',
                          ''twitter.com''],
         URL_new = [''https://twitter.com/home'' \<mapsto>
                      \<lparr>hostname = ''twitter.com'', pathname = ''/home''\<rparr>] \<rparr>"
  have a: "URL_new ?p ''https://twitter.com/home'' =
             Some \<lparr>hostname = ''twitter.com'', pathname = ''/home''\<rparr>"
    by simp
  have b: "8 < length (ALLOWED_HOSTS ?p)" by simp
  have c: "ALLOWED_HOSTS ?p ! 3 \<noteq> ALLOWED_HOSTS ?p ! 8" by simp
  from external_open_iff_not_excluded [OF a b c] show ?thesis by simp
qed

text \<open>
  Read the other way round, with a listed path triggering the external open, the policy
  fails on the session page of the host at index 3: there the handler makes no call.
\<close>

theorem excluded_path_opens_externally_counterexample:
  "OpenExternal ''https://github.com/session'' \<notin>
     set (performed (handleLinks
       \<lparr> isLinux = True, isMac = False, isWin = False, prod = True, instanceLock = True,
         hotReload = None,
         ALLOWED_HOSTS = [''h0'', ''h1'', ''h2'', ''github.com'', ''h4'', ''h5'', ''h6'', ''h7'',
                          ''twitter.com''],
         URL_new = [''https://github.com/session'' \<mapsto>
                      \<lparr>hostname = ''github.com'', pathname = ''/session''\<rparr>] \<rparr>
       ''https://github.com/session''))"
  by (simp add: handleLinks_def host_at_def performed_def)

section \<open>From the splash window to the main window\<close>




section \<open>The single-instance lock\<close>

text \<open>
  C5. A second launch while a first process holds the lock. The framework refuses the
  lock to the second process (\<open>p2\<close>) and delivers \<^verbatim>\<open>second-instance\<close> to the first
  (\<open>p1\<close>, in any state \<open>s1\<close>). The listener of the first process only closes, restores or
  focuses the existing main window (only closes it under \<^verbatim>\<open>hotReload\<close>) and creates no
  window; the second process creates no main window in any run.
\<close>

theorem second_instance_creates_no_main_window:
  assumes "step p1 s1 (Second_instance h) = Some s1'"
    and "\<not> instanceLock p2"
    and "run p2 (toplevel p2) evs = Some s2"
  shows "main_windows_created s1' = main_windows_created s1
       \<and> (\<exists>as. s1' = emit as s1 \<and> set as \<subseteq> {Close, Restore, Focus}
               \<and> (truthy (hotReload p1) \<longrightarrow> set as \<subseteq> {Close})
               \<and> (instanceLock p1 \<and> mainWindow s1 = Object \<longrightarrow>
                    as = (if truthy (hotReload p1) then [Close]
                          else (if isMinimized h then [Restore] else []) @ [Focus])))
       \<and> main_windows_created s2 = 0"
proof -
  define as where "as = (if instanceLock p1 then on_second_instance p1 h s1 else [])"
  have s1': "s1' = emit as s1"
    using assms(1) by (auto simp: as_def)
  have sub: "set as \<subseteq> {Close, Restore, Focus}"
    by (auto simp: as_def on_second_instance_def)
  have hot: "truthy (hotReload p1) \<longrightarrow> set as \<subseteq> {Close}"
    by (auto simp: as_def on_second_instance_def)
  have ex: "instanceLock p1 \<and> mainWindow s1 = Object \<longrightarrow>
              as = (if truthy (hotReload p1) then [Close]
                    else (if isMinimized h then [Restore] else []) @ [Focus])"
    by (simp add: as_def on_second_instance_def)
  have first: "main_windows_created s1' = main_windows_created s1"
    unfolding s1' using sub by (rule main_windows_created_emit)
  have "no_window s2"
    using assms(2) no_window_init [OF assms(2)] assms(3) by (rule no_window_run)
  then have second: "main_windows_created s2 = 0"
    by (rule no_window_created)
  from first s1' sub hot ex second show ?thesis by blast
qed

text \<open>A minimized main window is restored and focused; the second process has no window.\<close>

theorem second_instance_creates_no_main_window_witness:
  "main_windows_created (emit [Restore, Focus] (init\<lparr>mainWindow := Object\<rparr>))
     = main_windows_created (init\<lparr>mainWindow := Object\<rparr>)
   \<and> main_windows_created
       (toplevel \<lparr> isLinux = True, isMac = False, isWin = False, prod = True,
                   instanceLock = False, hotReload = None, ALLOWED_HOSTS = [],
                   URL_new = (\<lambda>url. None) \<rparr>) = 0"
proof -
  let ?p1 = "\<lparr> isLinux = True, isMac = False, isWin = False, prod = True, instanceLock = True,
               hotReload = None, ALLOWED_HOSTS = [], URL_new = (\<lambda>url. None) \<rparr>"
  let ?p2 = "\<lparr> isLinux = True, isMac = False, isWin = False, prod = True,
               instanceLock = False, hotReload = None, ALLOWED_HOSTS = [],
               URL_new = (\<lambda>url. None) \<rparr>"
  let ?h = "\<lparr> askForMediaAccess = Rejected, isFullScreenable = True, isFullScreen = False,
              maximizable = True, isMaximized = False, minimizable = True, isMinimized = True,
              overlay = False \<rparr>"
  let ?s1 = "init\<lparr>mainWindow := Object\<rparr>"
  have a: "step ?p1 ?s1 (Second_instance ?h) = Some (emit [Restore, Focus] ?s1)"
    by (simp add: on_second_instance_def truthy_def)
  have b: "\<not> instanceLock ?p2" by simp
  have c: "run ?p2 (toplevel ?p2) [] = Some (toplevel ?p2)" by simp
  from second_instance_creates_no_main_window [OF a b c] show ?thesis by blast
qed

text \<open>
  C6. Without the lock the top level calls \<^verbatim>\<open>exitApp\<close>, after \<^verbatim>\<open>app.relaunch()\<close> when
  \<^verbatim>\<open>process.env.hotReload\<close> is set to a non-empty value, and no window of any kind is
  created, then or later.
\<close>

theorem no_lock_exits_without_window:
  assumes "\<not> instanceLock p"
  shows "map snd (trace (toplevel p)) =
           (if isWin p then [SetAppUserModelId ''DogeHouse Reloaded''] else [])
           @ (if truthy (hotReload p) then [App_relaunch, ExitApp] else [ExitApp])
       \<and> (\<forall>evs s. run p (toplevel p) evs = Some s \<longrightarrow>
             (\<forall>t w opts. (t, New_BrowserWindow w opts) \<notin> set (trace s)))"
proof -
  have "map snd (trace (toplevel p)) =
           (if isWin p then [SetAppUserModelId ''DogeHouse Reloaded''] else [])
           @ (if truthy (hotReload p) then [App_relaunch, ExitApp] else [ExitApp])"
    using assms by (simp add: toplevel_def init_def)
  moreover have "\<forall>t w opts. (t, New_BrowserWindow w opts) \<notin> set (trace s)"
    if "run p (toplevel p) evs = Some s" for evs s
  proof -
    have "no_window s"
      using assms no_window_init [OF assms] that by (rule no_window_run)
    then show ?thesis by (simp add: no_window_def)
  qed
  ultimately show ?thesis by blast
qed

text \<open>With \<^verbatim>\<open>hotReload=true\<close> and no lock: relaunch, then exit.\<close>

theorem no_lock_exits_without_window_witness:
  "map snd (trace (toplevel
     \<lparr> isLinux = True, isMac = False, isWin = False, prod = False, instanceLock = False,
       hotReload = Some ''true'', ALLOWED_HOSTS = [], URL_new = (\<lambda>url. None) \<rparr>))
   = [App_relaunch, ExitApp]"
proof -
  let ?p = "\<lparr> isLinux = True, isMac = False, isWin = False, prod = False, instanceLock = False,
       hotReload = Some ''true'', ALLOWED_HOSTS = [], URL_new = (\<lambda>url. None) \<rparr>"
  have a: "\<not> instanceLock ?p" by simp
  have b: "(if isWin ?p then [SetAppUserModelId ''DogeHouse Reloaded''] else [])
           @ (if truthy (hotReload ?p) then [App_relaunch, ExitApp] else [ExitApp])
           = [App_relaunch, ExitApp]"
    by (simp add: truthy_def)
  from no_lock_exits_without_window [OF a, THEN conjunct1] show ?thesis
    by (simp only: b)
qed

section \<open>Handlers of the inter-process channel\<close>

text \<open>
  C7. On \<^verbatim>\<open>request-mic\<close> the handler asks once for the microphone and replies with the
  boolean the request gave, \<open>False\<close> for a denial; it makes no other call.
\<close>

theorem request_mic_replies_result:
  assumes "askForMediaAccess h = Resolved b"
  shows "ipcMain_emit p h ''request-mic'' = [AskForMediaAccess ''microphone'', ReturnValue b]"
  using assms by (simp add: ipcMain_emit_def on_request_mic_def)

text \<open>A denial is the reply \<open>False\<close>.\<close>

theorem request_mic_replies_result_witness:
  "ipcMain_emit
     \<lparr> isLinux = False, isMac = True, isWin = False, prod = True, instanceLock = True,
       hotReload = None, ALLOWED_HOSTS = [], URL_new = (\<lambda>url. None) \<rparr>
     \<lparr> askForMediaAccess = Resolved False, isFullScreenable = True, isFullScreen = False,
       maximizable = True, isMaximized = False, minimizable = True, isMinimized = False,
       overlay = False \<rparr>
     ''request-mic''
   = [AskForMediaAccess ''microphone'', ReturnValue False]"
  by (rule request_mic_replies_result) simp

section \<open>The update check\<close>

text \<open>
  C8. \<^verbatim>\<open>skipUpdateCheck\<close> sends \<^verbatim>\<open>notfound\<close> to the splash window once, whatever the
  platform, and \<^verbatim>\<open>skipCheck\<close> once exactly on Linux or in a build that is not packaged;
  so does every startup that holds the lock, once \<^verbatim>\<open>localize()\<close> has resolved.
\<close>

theorem update_check_stubbed:
  "sent (skipUpdateCheck p s) ''notfound'' = sent s ''notfound'' + 1
   \<and> sent (skipUpdateCheck p s) ''skipCheck'' =
       sent s ''skipCheck'' + (if isLinux p \<or> \<not> prod p then 1 else 0)
   \<and> (instanceLock p \<longrightarrow>
        (\<exists>s'. run p (toplevel p) [App_ready, Localize_resolved] = Some s'
            \<and> sent s' ''notfound'' = 1
            \<and> sent s' ''skipCheck'' = (if isLinux p \<or> \<not> prod p then 1 else 0)))"
proof -
  have general: "sent (skipUpdateCheck p s) ''notfound'' = sent s ''notfound'' + 1"
    "sent (skipUpdateCheck p s) ''skipCheck'' =
       sent s ''skipCheck'' + (if isLinux p \<or> \<not> prod p then 1 else 0)"
    by (simp_all add: sent_skipUpdateCheck)
  have startup: "\<exists>s'. run p (toplevel p) [App_ready, Localize_resolved] = Some s'
            \<and> sent s' ''notfound'' = 1
            \<and> sent s' ''skipCheck'' = (if isLinux p \<or> \<not> prod p then 1 else 0)"
    if lock: "instanceLock p"
  proof -
    let ?s1 = "(emit [Localize] (toplevel p))\<lparr>ready_emitted := True, localize_then := []\<rparr>"
    have fresh: "\<not> ready_emitted (toplevel p)" "localize_then (toplevel p) = []"
      by (simp_all add: toplevel_def init_def)
    have r: "run p (toplevel p) [App_ready, Localize_resolved] =
               Some (skipUpdateCheck p (createSplashWindow ?s1))"
      using lock fresh by (simp add: run_continuation_def)
    have c0: "sent (createSplashWindow ?s1) c = 0" for c
      using lock by (simp add: createSplashWindow_def sent_def toplevel_def init_def)
    show ?thesis
      unfolding r by (simp add: sent_skipUpdateCheck c0)
  qed
  from general startup show ?thesis by blast
qed

text \<open>A packaged build on Windows: \<^verbatim>\<open>notfound\<close> once, \<^verbatim>\<open>skipCheck\<close> never.\<close>

theorem update_check_stubbed_witness:
  "\<exists>s'. run \<lparr> isLinux = False, isMac = False, isWin = True, prod = True, instanceLock = True,
              hotReload = None, ALLOWED_HOSTS = [], URL_new = (\<lambda>url. None) \<rparr>
            (toplevel \<lparr> isLinux = False, isMac = False, isWin = True, prod = True,
              instanceLock = True, hotReload = None, ALLOWED_HOSTS = [],
              URL_new = (\<lambda>url. None) \<rparr>)
            [App_ready, Localize_resolved] = Some s'
      \<and> sent s' ''notfound'' = 1 \<and> sent s' ''skipCheck'' = 0"
proof -
  let ?p = "\<lparr> isLinux = False, isMac = False, isWin = True, prod = True, instanceLock = True,
              hotReload = None, ALLOWED_HOSTS = [], URL_new = (\<lambda>url. None) \<rparr>"
  have a: "instanceLock ?p" by simp
  have b: "(if isLinux ?p \<or> \<not> prod ?p then 1 else 0) = (0::nat)" by simp
  from update_check_stubbed [of ?p init, THEN conjunct2, THEN conjunct2, THEN mp, OF a]
  show ?thesis by (simp only: b)
qed

section \<open>Window geometry\<close>

text \<open>
  C9, as the code has it: the main window is created 1500 by 800 with minimum 400 by
  600, hidden; the splash window is created 290 by 400, frameless and transparent, and
  resizable (\<^verbatim>\<open>resizable: true\<close>).
\<close>

theorem window_geometry:
  "New_BrowserWindow Main_window (mainWindow_options p) \<in> snd ` set (trace (createMainWindow p s))
   \<and> width (mainWindow_options p) = 1500 \<and> height (mainWindow_options p) = 800
   \<and> minWidth (mainWindow_options p) = Some 400 \<and> minHeight (mainWindow_options p) = Some 600
   \<and> show_option (mainWindow_options p) = Some False
   \<and> New_BrowserWindow Splash_window splash_options \<in> snd ` set (trace (createSplashWindow s))
   \<and> width splash_options = 290 \<and> height splash_options = 400
   \<and> frame splash_options = Some False \<and> transparent splash_options = Some True
   \<and> resizable splash_options = Some True"
  by (simp add: createMainWindow_def createSplashWindow_def mainWindow_options_def
      splash_options_def image_Un)

text \<open>On Linux the main window has a frame.\<close>

theorem window_geometry_witness:
  "frame (mainWindow_options
     \<lparr> isLinux = True, isMac = False, isWin = False, prod = True, instanceLock = True,
       hotReload = None, ALLOWED_HOSTS = [], URL_new = (\<lambda>url. None) \<rparr>) = Some True
   \<and> width (mainWindow_options
     \<lparr> isLinux = True, isMac = False, isWin = False, prod = True, instanceLock = True,
       hotReload = None, ALLOWED_HOSTS = [], URL_new = (\<lambda>url. None) \<rparr>) = 1500"
  using window_geometry
    [of "\<lparr> isLinux = True, isMac = False, isWin = False, prod = True, instanceLock = True,
       hotReload = None, ALLOWED_HOSTS = [], URL_new = (\<lambda>url. None) \<rparr>" init]
  by (simp add: mainWindow_options_def)

text \<open>
  The splash window is not created with \<^verbatim>\<open>resizable: false\<close>: its size is the initial one,
  not a fixed one.
\<close>

theorem splash_not_resizable_counterexample:
  "resizable splash_options \<noteq> Some False"
  by (simp add: splash_options_def)

section \<open>The maximize message\<close>

text \<open>
  C10. \<^verbatim>\<open>@app/maximize\<close> is a guarded toggle: on macOS it sets full screen to the
  opposite of what it is, if the window can be full screen; elsewhere it unmaximizes a
  maximized window and maximizes another, if the window can be maximized; with the guard
  false it makes no call.
\<close>

theorem maximize_is_guarded_toggle:
  "(isMac p \<and> isFullScreenable h \<longrightarrow>
      ipcMain_emit p h ''@app/maximize'' = [SetFullScreen (\<not> isFullScreen h)])
   \<and> (isMac p \<and> \<not> isFullScreenable h \<longrightarrow> ipcMain_emit p h ''@app/maximize'' = [])
   \<and> (\<not> isMac p \<and> maximizable h \<and> isMaximized h \<longrightarrow>
      ipcMain_emit p h ''@app/maximize'' = [Unmaximize])
   \<and> (\<not> isMac p \<and> maximizable h \<and> \<not> isMaximized h \<longrightarrow>
      ipcMain_emit p h ''@app/maximize'' = [Maximize])
   \<and> (\<not> isMac p \<and> \<not> maximizable h \<longrightarrow> ipcMain_emit p h ''@app/maximize'' = [])"
  by (simp add: ipcMain_emit_def on_app_maximize_def)

text \<open>A maximized window on Windows is unmaximized.\<close>

theorem maximize_is_guarded_toggle_witness:
  "ipcMain_emit
     \<lparr> isLinux = False, isMac = False, isWin = True, prod = True, instanceLock = True,
       hotReload = None, ALLOWED_HOSTS = [], URL_new = (\<lambda>url. None) \<rparr>
     \<lparr> askForMediaAccess = Rejected, isFullScreenable = True, isFullScreen = False,
       maximizable = True, isMaximized = True, minimizable = True, isMinimized = False,
       overlay = False \<rparr>
     ''@app/maximize''
   = [Unmaximize]"
  using maximize_is_guarded_toggle
    [of "\<lparr> isLinux = False, isMac = False, isWin = True, prod = True, instanceLock = True,
       hotReload = None, ALLOWED_HOSTS = [], URL_new = (\<lambda>url. None) \<rparr>"
        "\<lparr> askForMediaAccess = Rejected, isFullScreenable = True, isFullScreen = False,
       maximizable = True, isMaximized = True, minimizable = True, isMinimized = False,
       overlay = False \<rparr>"]
  by simp

end
